theory Spec2Isabelle
  imports Complex_Main "HOL-Library.Char_ord" "HOL-Library.List_Lexorder"
begin

section \<open>Data model (shared/schema.ts)\<close>

text \<open>
  Identifiers are the \<open>varchar\<close> primary keys of the schema. Decimal columns
  (\<open>decimal(10,2)\<close>, carried as decimal strings and read with \<open>Number\<close>) are modelled
  by the rational number they denote; integer columns are \<open>int\<close>.
\<close>

type_synonym ident = string

text \<open>
  A JavaScript \<open>Date\<close> read in the server's local time, by its fields
  (\<open>getFullYear\<close>, \<open>getMonth\<close> in 0..11, \<open>getDate\<close>, hours, minutes, seconds,
  milliseconds). The local zone is taken without clock changes, so that the order of
  instants is the lexicographic order of the fields.
\<close>

record date =
  year :: int
  month :: nat
  day :: nat
  hours :: nat
  minutes :: nat
  seconds :: nat
  ms :: nat

record client =
  c_id :: ident
  c_firstName :: string
  c_lastName :: string
  c_email :: "string option"

record artist =
  ar_id :: ident
  ar_name :: string
  ar_isActive :: "bool option"

record appointment =
  ap_id :: ident
  ap_clientId :: ident
  ap_artistId :: ident
  ap_scheduledDate :: date
  ap_duration :: int
  ap_bodyPart :: string
  ap_status :: string

record inventory_item =
  inv_id :: ident
  inv_name :: string
  inv_category :: string
  inv_currentStock :: int
  inv_minLevel :: int
  inv_unitPrice :: rat

record sale =
  s_id :: ident
  s_appointmentId :: "ident option"
  s_clientId :: ident
  s_artistId :: ident
  s_totalAmount :: rat
  s_deposit :: rat
  s_remainingBalance :: rat
  s_paymentStatus :: string
  s_paymentMethod :: string
  s_saleDate :: date
  s_notes :: string

text \<open>
  \<open>InsertSale\<close>: the sale columns without \<open>id\<close>, \<open>createdAt\<close>, \<open>updatedAt\<close>. The
  derived columns \<open>remainingBalance\<close> and \<open>paymentStatus\<close> are part of it. An omitted
  \<open>saleDate\<close> takes the column default \<open>now()\<close>.
\<close>

record insert_sale =
  appointmentId :: "ident option"
  clientId :: ident
  artistId :: ident
  totalAmount :: rat
  deposit :: rat
  remainingBalance :: rat
  paymentStatus :: string
  paymentMethod :: string
  saleDate :: "date option"
  saleNotes :: string

text \<open>\<open>Partial<InsertSale>\<close>: every field may be left out.\<close>

record sale_updates =
  u_appointmentId :: "ident option option"
  u_clientId :: "ident option"
  u_artistId :: "ident option"
  u_totalAmount :: "rat option"
  u_deposit :: "rat option"
  u_remainingBalance :: "rat option"
  u_paymentStatus :: "string option"
  u_paymentMethod :: "string option"
  u_saleDate :: "date option"
  u_notes :: "string option"

record database =
  clients :: "client list"
  artists :: "artist list"
  appointments :: "appointment list"
  inventory :: "inventory_item list"
  sales :: "sale list"

section \<open>Sale form (SaleModal)\<close>

text \<open>
  \<open>mutationFn\<close>: the payload sent to the server is the form data with
  \<open>remainingBalance\<close> and \<open>paymentStatus\<close> overwritten:
  \<^verbatim>\<open>
  const remaining = total - deposit;
  paymentStatus: remaining <= 0 ? 'completed' : remaining < total ? 'partial' : 'pending'
  \<close>
\<close>

definition salePayload :: "insert_sale \<Rightarrow> insert_sale" where
  "salePayload data =
     (let total = totalAmount data;
          dep = deposit data;
          remaining = total - dep
      in data\<lparr>remainingBalance := remaining,
              paymentStatus := (if remaining \<le> 0 then ''completed''
                                else if remaining < total then ''partial''
                                else ''pending'')\<rparr>)"

text \<open>The balance the form displays: \<open>Math.max(0, totalAmount - deposit)\<close>.\<close>

definition displayedRemainingBalance :: "insert_sale \<Rightarrow> rat" where
  "displayedRemainingBalance data = max 0 (totalAmount data - deposit data)"

section \<open>Stock status (inventory page)\<close>

record stock_status =
  label :: string
  color :: string

definition getStockStatus :: "int \<Rightarrow> int \<Rightarrow> stock_status" where
  "getStockStatus currentStock minLevel =
     (if currentStock = 0 then
        \<lparr>label = ''Out of Stock'',
         color = ''bg-red-100 text-red-800 dark:bg-red-900 dark:text-red-200''\<rparr>
      else if currentStock \<le> minLevel then
        \<lparr>label = ''Low Stock'',
         color = ''bg-orange-100 text-orange-800 dark:bg-orange-900 dark:text-orange-200''\<rparr>
      else
        \<lparr>label = ''In Stock'',
         color = ''bg-green-100 text-green-800 dark:bg-green-900 dark:text-green-200''\<rparr>)"

section \<open>Dates (JavaScript \<open>Date\<close> in local time)\<close>

definition isLeapYear :: "int \<Rightarrow> bool" where
  "isLeapYear y = ((y mod 4 = 0 \<and> y mod 100 \<noteq> 0) \<or> y mod 400 = 0)"

definition daysInMonth :: "int \<Rightarrow> nat \<Rightarrow> nat" where
  "daysInMonth y m =
     (if m = 1 then (if isLeapYear y then 29 else 28)
      else if m = 3 \<or> m = 5 \<or> m = 8 \<or> m = 10 then 30
      else 31)"

lemma daysInMonth_pos: "0 < daysInMonth y m"
  by (simp add: daysInMonth_def)

text \<open>
  The year, month and day of \<open>new Date(y, m, d)\<close>: a month past December carries into
  the year, day 0 is the last day of the month before, and a day past the end of the
  month carries into the months after.
\<close>

function makeDay :: "int \<Rightarrow> nat \<Rightarrow> nat \<Rightarrow> int \<times> nat \<times> nat" where
  "makeDay y m d =
     (if 12 \<le> m then makeDay (y + 1) (m - 12) d
      else if d = 0 then
        (if m = 0 then (y - 1, 11, 31) else (y, m - 1, daysInMonth y (m - 1)))
      else if daysInMonth y m < d then makeDay y (m + 1) (d - daysInMonth y m)
      else (y, m, d))"
  by pat_completeness auto
termination
  by (relation "measures [\<lambda>(y, m, d). d, \<lambda>(y, m, d). m]")
     (auto simp: daysInMonth_pos)

declare makeDay.simps [simp del]

text \<open>\<open>new Date(y, m, d)\<close>: local midnight of that day.\<close>

definition newDate :: "int \<Rightarrow> nat \<Rightarrow> nat \<Rightarrow> date" where
  "newDate y m d =
     (case makeDay y m d of
        (y', m', d') \<Rightarrow>
          \<lparr>year = y', month = m', day = d', hours = 0, minutes = 0, seconds = 0, ms = 0\<rparr>)"

text \<open>\<open>t.setHours(h, mi, s, milli)\<close>, for arguments within their ranges.\<close>

definition setHours :: "date \<Rightarrow> nat \<Rightarrow> nat \<Rightarrow> nat \<Rightarrow> nat \<Rightarrow> date" where
  "setHours t h mi s milli = t\<lparr>hours := h, minutes := mi, seconds := s, ms := milli\<rparr>"

text \<open>\<open>t.setDate(d)\<close>: the day of the month is replaced, with carry; the time of day stays.\<close>

definition setDate :: "date \<Rightarrow> nat \<Rightarrow> date" where
  "setDate t d =
     (case makeDay (year t) (month t) d of
        (y', m', d') \<Rightarrow> t\<lparr>year := y', month := m', day := d'\<rparr>)"

definition dateFields :: "date \<Rightarrow> int list" where
  "dateFields t =
     [year t, int (month t), int (day t), int (hours t), int (minutes t), int (seconds t),
      int (ms t)]"

text \<open>\<open>gte\<close> and \<open>lte\<close> on timestamps: the order of instants.\<close>

definition gte :: "date \<Rightarrow> date \<Rightarrow> bool" where
  "gte a b = (dateFields b \<le> dateFields a)"

definition lte :: "date \<Rightarrow> date \<Rightarrow> bool" where
  "lte a b = (dateFields a \<le> dateFields b)"

section \<open>Datastore (server/storage.ts over the schema)\<close>

text \<open>
  A table is the list of its rows. A statement that breaks a constraint the schema
  declares (a primary key, a \<open>references\<close> foreign key, which PostgreSQL checks with
  \<open>NO ACTION\<close> when nothing else is written) raises, and the statement changes
  nothing; the storage methods let that exception through.
\<close>

datatype db_error = ForeignKeyViolation | UniqueViolation

definition clientExists :: "database \<Rightarrow> ident \<Rightarrow> bool" where
  "clientExists db i = (\<exists>c \<in> set (clients db). c_id c = i)"

definition artistExists :: "database \<Rightarrow> ident \<Rightarrow> bool" where
  "artistExists db i = (\<exists>a \<in> set (artists db). ar_id a = i)"

definition appointmentExists :: "database \<Rightarrow> ident \<Rightarrow> bool" where
  "appointmentExists db i = (\<exists>a \<in> set (appointments db). ap_id a = i)"

definition inventoryItemExists :: "database \<Rightarrow> ident \<Rightarrow> bool" where
  "inventoryItemExists db i = (\<exists>x \<in> set (inventory db). inv_id x = i)"

definition saleExists :: "database \<Rightarrow> ident \<Rightarrow> bool" where
  "saleExists db i = (\<exists>s \<in> set (sales db). s_id s = i)"

text \<open>
  The rows that reference a key: \<open>appointments.client_id\<close> and \<open>sales.client_id\<close>
  reference \<open>clients.id\<close>; \<open>appointments.artist_id\<close> and \<open>sales.artist_id\<close> reference
  \<open>artists.id\<close>; \<open>sales.appointment_id\<close> references \<open>appointments.id\<close>.
\<close>

definition clientReferenced :: "database \<Rightarrow> ident \<Rightarrow> bool" where
  "clientReferenced db i =
     ((\<exists>a \<in> set (appointments db). ap_clientId a = i) \<or> (\<exists>s \<in> set (sales db). s_clientId s = i))"

definition artistReferenced :: "database \<Rightarrow> ident \<Rightarrow> bool" where
  "artistReferenced db i =
     ((\<exists>a \<in> set (appointments db). ap_artistId a = i) \<or> (\<exists>s \<in> set (sales db). s_artistId s = i))"

definition appointmentReferenced :: "database \<Rightarrow> ident \<Rightarrow> bool" where
  "appointmentReferenced db i = (\<exists>s \<in> set (sales db). s_appointmentId s = Some i)"

subsection \<open>Deletes\<close>

text \<open>
  \<open>await db.delete(t).where(eq(t.id, id))\<close>: the rows with that id go; when there is
  none the statement deletes nothing and succeeds. A row that is still referenced
  cannot go.
\<close>

definition deleteArtist :: "database \<Rightarrow> ident \<Rightarrow> db_error + database" where
  "deleteArtist db i =
     (if artistExists db i \<and> artistReferenced db i then Inl ForeignKeyViolation
      else Inr (db\<lparr>artists := filter (\<lambda>a. ar_id a \<noteq> i) (artists db)\<rparr>))"

definition deleteClient :: "database \<Rightarrow> ident \<Rightarrow> db_error + database" where
  "deleteClient db i =
     (if clientExists db i \<and> clientReferenced db i then Inl ForeignKeyViolation
      else Inr (db\<lparr>clients := filter (\<lambda>c. c_id c \<noteq> i) (clients db)\<rparr>))"

definition deleteAppointment :: "database \<Rightarrow> ident \<Rightarrow> db_error + database" where
  "deleteAppointment db i =
     (if appointmentExists db i \<and> appointmentReferenced db i then Inl ForeignKeyViolation
      else Inr (db\<lparr>appointments := filter (\<lambda>a. ap_id a \<noteq> i) (appointments db)\<rparr>))"

definition deleteInventoryItem :: "database \<Rightarrow> ident \<Rightarrow> db_error + database" where
  "deleteInventoryItem db i = Inr (db\<lparr>inventory := filter (\<lambda>x. inv_id x \<noteq> i) (inventory db)\<rparr>)"

definition deleteSale :: "database \<Rightarrow> ident \<Rightarrow> db_error + database" where
  "deleteSale db i = Inr (db\<lparr>sales := filter (\<lambda>s. s_id s \<noteq> i) (sales db)\<rparr>)"

subsection \<open>Sales writes\<close>

text \<open>
  \<open>createSale\<close>: \<open>db.insert(sales).values(sale).returning()\<close>. The row is the
  payload as it came, under the identifier the database generates (\<open>newId\<close>) and with
  the sale date defaulting to \<open>now\<close>.
\<close>

definition saleRow :: "date \<Rightarrow> ident \<Rightarrow> insert_sale \<Rightarrow> sale" where
  "saleRow now newId v =
     \<lparr>s_id = newId,
      s_appointmentId = appointmentId v,
      s_clientId = clientId v,
      s_artistId = artistId v,
      s_totalAmount = totalAmount v,
      s_deposit = deposit v,
      s_remainingBalance = remainingBalance v,
      s_paymentStatus = paymentStatus v,
      s_paymentMethod = paymentMethod v,
      s_saleDate = (case saleDate v of None \<Rightarrow> now | Some d \<Rightarrow> d),
      s_notes = saleNotes v\<rparr>"

definition saleReferencesOk :: "database \<Rightarrow> sale \<Rightarrow> bool" where
  "saleReferencesOk db s =
     (clientExists db (s_clientId s) \<and> artistExists db (s_artistId s) \<and>
      (case s_appointmentId s of None \<Rightarrow> True | Some a \<Rightarrow> appointmentExists db a))"

definition createSale :: "database \<Rightarrow> date \<Rightarrow> ident \<Rightarrow> insert_sale \<Rightarrow> db_error + (database \<times> sale)" where
  "createSale db now newId v =
     (let newSale = saleRow now newId v in
      if saleExists db newId then Inl UniqueViolation
      else if \<not> saleReferencesOk db newSale then Inl ForeignKeyViolation
      else Inr (db\<lparr>sales := sales db @ [newSale]\<rparr>, newSale))"

text \<open>
  \<open>updateSale\<close>: \<open>db.update(sales).set({...updates, updatedAt}).where(eq(sales.id, id))
  .returning()\<close>. The fields present in \<open>updates\<close> replace the row's; the method returns
  the first updated row, \<open>undefined\<close> when no row has the id.
\<close>

definition applySaleUpdates :: "sale_updates \<Rightarrow> sale \<Rightarrow> sale" where
  "applySaleUpdates u s =
     s\<lparr>s_appointmentId := (case u_appointmentId u of None \<Rightarrow> s_appointmentId s | Some v \<Rightarrow> v),
       s_clientId := (case u_clientId u of None \<Rightarrow> s_clientId s | Some v \<Rightarrow> v),
       s_artistId := (case u_artistId u of None \<Rightarrow> s_artistId s | Some v \<Rightarrow> v),
       s_totalAmount := (case u_totalAmount u of None \<Rightarrow> s_totalAmount s | Some v \<Rightarrow> v),
       s_deposit := (case u_deposit u of None \<Rightarrow> s_deposit s | Some v \<Rightarrow> v),
       s_remainingBalance :=
         (case u_remainingBalance u of None \<Rightarrow> s_remainingBalance s | Some v \<Rightarrow> v),
       s_paymentStatus := (case u_paymentStatus u of None \<Rightarrow> s_paymentStatus s | Some v \<Rightarrow> v),
       s_paymentMethod := (case u_paymentMethod u of None \<Rightarrow> s_paymentMethod s | Some v \<Rightarrow> v),
       s_saleDate := (case u_saleDate u of None \<Rightarrow> s_saleDate s | Some v \<Rightarrow> v),
       s_notes := (case u_notes u of None \<Rightarrow> s_notes s | Some v \<Rightarrow> v)\<rparr>"

text \<open>A foreign key is checked on update when its column changes.\<close>

definition saleUpdateReferencesOk :: "database \<Rightarrow> sale \<Rightarrow> sale \<Rightarrow> bool" where
  "saleUpdateReferencesOk db s s' =
     ((s_clientId s' = s_clientId s \<or> clientExists db (s_clientId s')) \<and>
      (s_artistId s' = s_artistId s \<or> artistExists db (s_artistId s')) \<and>
      (s_appointmentId s' = s_appointmentId s \<or>
       (case s_appointmentId s' of None \<Rightarrow> True | Some a \<Rightarrow> appointmentExists db a)))"

definition updateSale ::
  "database \<Rightarrow> ident \<Rightarrow> sale_updates \<Rightarrow> db_error + (database \<times> sale option)" where
  "updateSale db i u =
     (let matching = filter (\<lambda>s. s_id s = i) (sales db);
          updated = map (applySaleUpdates u) matching in
      if \<exists>s \<in> set matching. \<not> saleUpdateReferencesOk db s (applySaleUpdates u s)
      then Inl ForeignKeyViolation
      else Inr (db\<lparr>sales := map (\<lambda>s. if s_id s = i then applySaleUpdates u s else s) (sales db)\<rparr>,
                case updated of [] \<Rightarrow> None | s # _ \<Rightarrow> Some s))"

subsection \<open>Joined reads\<close>

text \<open>
  \<open>.leftJoin(t, on)\<close>: every row of the left side with each matching row of \<open>t\<close>, or
  with \<open>null\<close> when none matches.
\<close>

definition leftJoin :: "'a list \<Rightarrow> 'b list \<Rightarrow> ('a \<Rightarrow> 'b \<Rightarrow> bool) \<Rightarrow> ('a \<times> 'b option) list" where
  "leftJoin rows tbl on =
     concat (map (\<lambda>r. if filter (on r) tbl = [] then [(r, None)]
                       else map (\<lambda>m. (r, Some m)) (filter (on r) tbl)) rows)"

text \<open>
  \<open>AppointmentWithRelations\<close> and \<open>SaleWithRelations\<close> as the methods build them:
  \<open>client: row.clients!\<close> is the joined value, \<open>null\<close> (\<open>None\<close>) when the join found
  no client; the \<open>!\<close> is a type assertion and checks nothing when the code runs.
\<close>

record appointment_with_relations =
  aw_appointment :: appointment
  aw_client :: "client option"
  aw_artist :: "artist option"


definition appointmentRows :: "database \<Rightarrow> ((appointment \<times> client option) \<times> artist option) list" where
  "appointmentRows db =
     leftJoin (leftJoin (appointments db) (clients db) (\<lambda>a c. ap_clientId a = c_id c))
       (artists db) (\<lambda>(a, c) ar. ap_artistId a = ar_id ar)"

definition appointmentWithRelations ::
  "(appointment \<times> client option) \<times> artist option \<Rightarrow> appointment_with_relations" where
  "appointmentWithRelations row =
     (case row of ((a, c), ar) \<Rightarrow> \<lparr>aw_appointment = a, aw_client = c, aw_artist = ar\<rparr>)"


definition getAppointmentsByDate :: "database \<Rightarrow> date \<Rightarrow> appointment_with_relations list" where
  "getAppointmentsByDate db d =
     (let startOfDay = setHours d 0 0 0 0;
          endOfDay = setHours d 23 59 59 999
      in map appointmentWithRelations
           (sort_key (\<lambda>((a, c), ar). dateFields (ap_scheduledDate a))
              (filter (\<lambda>((a, c), ar). gte (ap_scheduledDate a) startOfDay \<and>
                                      lte (ap_scheduledDate a) endOfDay)
                 (appointmentRows db))))"




subsection \<open>Inventory and dashboard\<close>

definition getLowStockItems :: "database \<Rightarrow> inventory_item list" where
  "getLowStockItems db =
     sort_key inv_name (filter (\<lambda>x. inv_currentStock x \<le> inv_minLevel x) (inventory db))"

record dashboard_stats =
  todayAppointments :: nat
  monthlyRevenue :: rat
  activeArtists :: nat
  lowStockItems :: nat

text \<open>\<open>getDashboardStats\<close>; \<open>now\<close> is the value of \<open>new Date()\<close> when it runs.\<close>

definition getDashboardStats :: "database \<Rightarrow> date \<Rightarrow> dashboard_stats" where
  "getDashboardStats db now =
     (let today = setHours now 0 0 0 0;
          tomorrow = setDate today (day today + 1);
          startOfMonth = newDate (year today) (month today) 1;
          endOfMonth = newDate (year today) (month today + 1) 0
      in \<lparr>todayAppointments =
             length (filter (\<lambda>a. gte (ap_scheduledDate a) today \<and> lte (ap_scheduledDate a) tomorrow)
               (appointments db)),
           monthlyRevenue =
             sum_list (map s_totalAmount
               (filter (\<lambda>s. gte (s_saleDate s) startOfMonth \<and> lte (s_saleDate s) endOfMonth)
                  (sales db))),
           activeArtists = length (filter (\<lambda>a. ar_isActive a = Some True) (artists db)),
           lowStockItems =
             length (filter (\<lambda>x. inv_currentStock x \<le> inv_minLevel x) (inventory db))\<rparr>)"

section \<open>HTTP handlers (server/routes.ts)\<close>

text \<open>
  Each handler is modelled after \<open>isAuthenticated\<close> has let the request through and, for
  a body, after the insert schema has parsed it. A handler returns the state it leaves
  and the status it sends.
\<close>

definition deleteStatus :: "database \<Rightarrow> db_error + database \<Rightarrow> database \<times> nat" where
  "deleteStatus db r = (case r of Inr db' \<Rightarrow> (db', 204) | Inl e \<Rightarrow> (db, 500))"

definition delete_artists_route :: "database \<Rightarrow> ident \<Rightarrow> database \<times> nat" where
  "delete_artists_route db i = deleteStatus db (deleteArtist db i)"

definition delete_clients_route :: "database \<Rightarrow> ident \<Rightarrow> database \<times> nat" where
  "delete_clients_route db i = deleteStatus db (deleteClient db i)"

definition delete_appointments_route :: "database \<Rightarrow> ident \<Rightarrow> database \<times> nat" where
  "delete_appointments_route db i = deleteStatus db (deleteAppointment db i)"

definition delete_inventory_route :: "database \<Rightarrow> ident \<Rightarrow> database \<times> nat" where
  "delete_inventory_route db i = deleteStatus db (deleteInventoryItem db i)"

definition delete_sales_route :: "database \<Rightarrow> ident \<Rightarrow> database \<times> nat" where
  "delete_sales_route db i = deleteStatus db (deleteSale db i)"



definition post_sales_route ::
  "database \<Rightarrow> date \<Rightarrow> ident \<Rightarrow> insert_sale \<Rightarrow> database \<times> nat \<times> sale option" where
  "post_sales_route db now newId validatedData =
     (case createSale db now newId validatedData of
        Inr (db', s) \<Rightarrow> (db', 201, Some s)
      | Inl e \<Rightarrow> (db, 400, None))"

definition patch_sales_route ::
  "database \<Rightarrow> ident \<Rightarrow> sale_updates \<Rightarrow> database \<times> nat \<times> sale option" where
  "patch_sales_route db i updates =
     (case updateSale db i updates of
        Inr (db', s) \<Rightarrow> (db', 200, s)
      | Inl e \<Rightarrow> (db, 400, None))"

section \<open>Submitting the sale form\<close>

text \<open>
  The body of the PATCH request is the whole payload; a field that is \<open>undefined\<close>
  (no appointment, no sale date) is not part of the JSON and updates nothing.
\<close>

definition payloadUpdates :: "insert_sale \<Rightarrow> sale_updates" where
  "payloadUpdates p =
     \<lparr>u_appointmentId = (case appointmentId p of None \<Rightarrow> None | Some a \<Rightarrow> Some (Some a)),
      u_clientId = Some (clientId p),
      u_artistId = Some (artistId p),
      u_totalAmount = Some (totalAmount p),
      u_deposit = Some (deposit p),
      u_remainingBalance = Some (remainingBalance p),
      u_paymentStatus = Some (paymentStatus p),
      u_paymentMethod = Some (paymentMethod p),
      u_saleDate = saleDate p,
      u_notes = Some (saleNotes p)\<rparr>"

text \<open>
  \<open>mutationFn\<close>: \<open>editing\<close> holds the id of the sale being edited (\<open>isEditing\<close>), or
  nothing for a new sale.
\<close>

definition mutationFn ::
  "database \<Rightarrow> date \<Rightarrow> ident \<Rightarrow> ident option \<Rightarrow> insert_sale \<Rightarrow> database \<times> nat \<times> sale option" where
  "mutationFn db now newId editing data =
     (let payload = salePayload data in
      case editing of
        Some saleId \<Rightarrow> patch_sales_route db saleId (payloadUpdates payload)
      | None \<Rightarrow> post_sales_route db now newId payload)"

section \<open>Referential integrity of a state\<close>

text \<open>
  Every appointment and every sale names a client and an artist that exist, and a sale
  that names an appointment names one that exists: the foreign keys of the schema.
\<close>

definition referencesResolve :: "database \<Rightarrow> bool" where
  "referencesResolve db =
     ((\<forall>a \<in> set (appointments db). clientExists db (ap_clientId a) \<and> artistExists db (ap_artistId a)) \<and>
      (\<forall>s \<in> set (sales db). saleReferencesOk db s))"

section \<open>Sample data\<close>

text \<open>
  A small studio used to run the operations on concrete inputs. Months count from 0,
  as \<open>getMonth\<close> does: \<open>localTime 2024 2 10 15 0\<close> is 10 March 2024, 15:00.
\<close>

definition localTime :: "int \<Rightarrow> nat \<Rightarrow> nat \<Rightarrow> nat \<Rightarrow> nat \<Rightarrow> date" where
  "localTime y m d h mi = \<lparr>year = y, month = m, day = d, hours = h, minutes = mi, seconds = 0, ms = 0\<rparr>"

definition ada :: client where
  "ada = \<lparr>c_id = ''c1'', c_firstName = ''Ada'', c_lastName = ''Lee'', c_email = None\<rparr>"

definition kim :: artist where
  "kim = \<lparr>ar_id = ''a1'', ar_name = ''Kim'', ar_isActive = Some True\<rparr>"

definition session :: appointment where
  "session =
     \<lparr>ap_id = ''p1'', ap_clientId = ''c1'', ap_artistId = ''a1'',
      ap_scheduledDate = localTime 2024 2 11 0 0, ap_duration = 60, ap_bodyPart = ''arm'',
      ap_status = ''scheduled''\<rparr>"

definition studio :: database where
  "studio =
     \<lparr>clients = [ada], artists = [kim], appointments = [session], inventory = [], sales = []\<rparr>"

definition saleForm :: "rat \<Rightarrow> rat \<Rightarrow> insert_sale" where
  "saleForm tot dep =
     \<lparr>appointmentId = None, clientId = ''c1'', artistId = ''a1'', totalAmount = tot,
      deposit = dep, remainingBalance = 0, paymentStatus = ''pending'', paymentMethod = ''cash'',
      saleDate = None, saleNotes = []\<rparr>"

definition saleOn :: "ident \<Rightarrow> date \<Rightarrow> rat \<Rightarrow> sale" where
  "saleOn i d tot =
     \<lparr>s_id = i, s_appointmentId = None, s_clientId = ''c1'', s_artistId = ''a1'',
      s_totalAmount = tot, s_deposit = 0, s_remainingBalance = tot, s_paymentStatus = ''pending'',
      s_paymentMethod = ''cash'', s_saleDate = d, s_notes = []\<rparr>"

definition stockItem :: "ident \<Rightarrow> string \<Rightarrow> int \<Rightarrow> int \<Rightarrow> inventory_item" where
  "stockItem i n cur lvl =
     \<lparr>inv_id = i, inv_name = n, inv_category = ''ink'', inv_currentStock = cur, inv_minLevel = lvl,
      inv_unitPrice = 10\<rparr>"

definition shelf :: "inventory_item list" where
  "shelf = [stockItem ''i1'' ''black ink'' 3 5, stockItem ''i2'' ''needles'' 0 5,
            stockItem ''i3'' ''gloves'' 9 5]"

definition bea :: client where
  "bea = \<lparr>c_id = ''c2'', c_firstName = ''Bea'', c_lastName = ''Ng'', c_email = None\<rparr>"


section \<open>Unfolding rules\<close>

text \<open>The definitions that running an operation on the sample data unfolds.\<close>

lemmas studio_defs = studio_def ada_def kim_def session_def

lemmas sale_write_defs =
  mutationFn_def post_sales_route_def patch_sales_route_def createSale_def updateSale_def
  saleExists_def saleReferencesOk_def saleUpdateReferencesOk_def clientExists_def artistExists_def
  appointmentExists_def salePayload_def payloadUpdates_def applySaleUpdates_def saleRow_def
  displayedRemainingBalance_def Let_def

lemmas date_defs =
  setHours_def setDate_def newDate_def makeDay.simps daysInMonth_def isLeapYear_def gte_def lte_def
  dateFields_def localTime_def

section \<open>Sale writes\<close>









text \<open>
  Claim C2, at total 100 and deposit 150. The payload the form submits carries the
  balance -50 with status "completed", and the server stores it as it comes; the balance
  the form shows for the same input is 0.
\<close>

theorem overpaid_sale_stores_negative_balance:
  "remainingBalance (salePayload (saleForm 100 150)) = - 50
   \<and> paymentStatus (salePayload (saleForm 100 150)) = ''completed''
   \<and> displayedRemainingBalance (saleForm 100 150) = 0
   \<and> fst (snd (mutationFn studio (localTime 2024 2 10 15 0) ''s1'' None (saleForm 100 150))) = 201
   \<and> map s_remainingBalance
        (sales (fst (mutationFn studio (localTime 2024 2 10 15 0) ''s1'' None (saleForm 100 150)))) = [- 50]
   \<and> map s_paymentStatus
        (sales (fst (mutationFn studio (localTime 2024 2 10 15 0) ''s1'' None (saleForm 100 150)))) = [''completed'']"
  by (simp add: sale_write_defs studio_defs saleForm_def)

section \<open>Stock classification\<close>



section \<open>Dashboard\<close>

text \<open>
  Claim C3, on 10 March 2024 at 15:00 with one appointment, scheduled at 00:00 on
  11 March. The dashboard counts it among today's appointments; the appointments of the
  day, as \<open>getAppointmentsByDate\<close> lists them, do not include it.
\<close>

theorem next_midnight_counted_today:
  "map ap_scheduledDate (appointments studio) = [localTime 2024 2 11 0 0]
   \<and> todayAppointments (getDashboardStats studio (localTime 2024 2 10 15 0)) = 1
   \<and> getAppointmentsByDate studio (localTime 2024 2 10 15 0) = []"
  by (simp add: getDashboardStats_def getAppointmentsByDate_def appointmentRows_def leftJoin_def
      studio_defs date_defs Let_def)

text \<open>
  Claim C4, on 15 January 2024. A sale of 100 made on 31 January at 18:00 is left out
  of the monthly revenue, while the same sale at 00:00 of that day is counted. Two sales
  earlier in the month, of 100 and 250.50, give 350.50.
\<close>

theorem last_day_sale_left_out:
  "monthlyRevenue (getDashboardStats
      (studio\<lparr>sales := [saleOn ''s1'' (localTime 2024 0 31 18 0) 100]\<rparr>) (localTime 2024 0 15 10 0)) = 0
   \<and> monthlyRevenue (getDashboardStats
      (studio\<lparr>sales := [saleOn ''s1'' (localTime 2024 0 31 0 0) 100]\<rparr>) (localTime 2024 0 15 10 0)) = 100
   \<and> monthlyRevenue (getDashboardStats
      (studio\<lparr>sales := [saleOn ''s1'' (localTime 2024 0 5 9 0) 100,
                         saleOn ''s2'' (localTime 2024 0 20 17 30) (501 / 2)]\<rparr>)
      (localTime 2024 0 15 10 0)) = 701 / 2"
  by (simp add: getDashboardStats_def studio_defs saleOn_def date_defs Let_def)

section \<open>Low stock\<close>

lemma length_filter_disjoint:
  assumes "\<And>x. x \<in> set xs \<Longrightarrow> \<not> (P x \<and> Q x)"
  shows "length (filter P xs) + length (filter Q xs) = length (filter (\<lambda>x. P x \<or> Q x) xs)"
  using assms by (induction xs) auto

lemma label_out_or_low:
  assumes "0 \<le> minLevel"
  shows "(label (getStockStatus currentStock minLevel) = ''Out of Stock''
          \<or> label (getStockStatus currentStock minLevel) = ''Low Stock'')
         \<longleftrightarrow> currentStock \<le> minLevel"
  using assms by (auto simp: getStockStatus_def)

lemma label_out_not_low:
  "\<not> (label (getStockStatus currentStock minLevel) = ''Out of Stock''
      \<and> label (getStockStatus currentStock minLevel) = ''Low Stock'')"
  by (simp add: getStockStatus_def)

lemma lowStockItems_eq:
  "lowStockItems (getDashboardStats db now) =
     length (filter (\<lambda>x. inv_currentStock x \<le> inv_minLevel x) (inventory db))"
  by (simp add: getDashboardStats_def Let_def)

text \<open>
  Claim C6. The dashboard's low-stock count is the number of inventory items whose
  current stock is at most their minimum level, the same items \<open>getLowStockItems\<close>
  returns. With minimum levels that are not negative it is the number of items shown as
  "Out of Stock" plus the number shown as "Low Stock": the out-of-stock items are in the
  one count.
\<close>

theorem lowStockItems_counts_low_and_out:
  "lowStockItems (getDashboardStats db now) =
     length (filter (\<lambda>x. inv_currentStock x \<le> inv_minLevel x) (inventory db))
   \<and> lowStockItems (getDashboardStats db now) = length (getLowStockItems db)
   \<and> ((\<forall>x \<in> set (inventory db). 0 \<le> inv_minLevel x) \<longrightarrow>
        lowStockItems (getDashboardStats db now) =
          length (filter (\<lambda>x. label (getStockStatus (inv_currentStock x) (inv_minLevel x)) = ''Out of Stock'')
                    (inventory db))
          + length (filter (\<lambda>x. label (getStockStatus (inv_currentStock x) (inv_minLevel x)) = ''Low Stock'')
                    (inventory db)))"
proof (intro conjI impI)
  show "lowStockItems (getDashboardStats db now) =
     length (filter (\<lambda>x. inv_currentStock x \<le> inv_minLevel x) (inventory db))"
    by (rule lowStockItems_eq)
  show "lowStockItems (getDashboardStats db now) = length (getLowStockItems db)"
    by (simp add: lowStockItems_eq getLowStockItems_def)
next
  let ?out = "\<lambda>x. label (getStockStatus (inv_currentStock x) (inv_minLevel x)) = ''Out of Stock''"
  let ?low = "\<lambda>x. label (getStockStatus (inv_currentStock x) (inv_minLevel x)) = ''Low Stock''"
  assume nonneg: "\<forall>x \<in> set (inventory db). 0 \<le> inv_minLevel x"
  have "length (filter ?out (inventory db)) + length (filter ?low (inventory db)) =
      length (filter (\<lambda>x. ?out x \<or> ?low x) (inventory db))"
    by (rule length_filter_disjoint) (simp add: label_out_not_low)
  also have "filter (\<lambda>x. ?out x \<or> ?low x) (inventory db) =
      filter (\<lambda>x. inv_currentStock x \<le> inv_minLevel x) (inventory db)"
    using nonneg by (intro filter_cong refl) (simp add: label_out_or_low)
  finally show "lowStockItems (getDashboardStats db now) =
      length (filter ?out (inventory db)) + length (filter ?low (inventory db))"
    by (simp add: lowStockItems_eq)
qed

theorem lowStockItems_counts_low_and_out_witness:
  "map inv_minLevel (inventory (studio\<lparr>inventory := shelf\<rparr>)) = [5, 5, 5]
   \<and> lowStockItems (getDashboardStats (studio\<lparr>inventory := shelf\<rparr>) (localTime 2024 2 10 15 0)) = 2
   \<and> map inv_name (getLowStockItems (studio\<lparr>inventory := shelf\<rparr>)) = [''black ink'', ''needles'']
   \<and> map (\<lambda>x. label (getStockStatus (inv_currentStock x) (inv_minLevel x))) shelf =
       [''Low Stock'', ''Out of Stock'', ''In Stock'']"
proof -
  have h: "\<forall>x \<in> set (inventory (studio\<lparr>inventory := shelf\<rparr>)). 0 \<le> inv_minLevel x"
    by (simp add: shelf_def stockItem_def)
  from lowStockItems_counts_low_and_out[of "studio\<lparr>inventory := shelf\<rparr>" "localTime 2024 2 10 15 0"] h
  have "lowStockItems (getDashboardStats (studio\<lparr>inventory := shelf\<rparr>) (localTime 2024 2 10 15 0)) =
      length (filter (\<lambda>x. label (getStockStatus (inv_currentStock x) (inv_minLevel x)) = ''Out of Stock'') shelf)
      + length (filter (\<lambda>x. label (getStockStatus (inv_currentStock x) (inv_minLevel x)) = ''Low Stock'') shelf)"
    by simp
  then have "lowStockItems (getDashboardStats (studio\<lparr>inventory := shelf\<rparr>) (localTime 2024 2 10 15 0)) = 2"
    by (simp add: shelf_def stockItem_def getStockStatus_def)
  then show ?thesis
    by (simp add: getLowStockItems_def shelf_def stockItem_def getStockStatus_def)
qed

section \<open>Appointments and sales with their client and artist\<close>















section \<open>Deletes\<close>

lemma filter_absent: "\<forall>x \<in> set xs. f x \<noteq> i \<Longrightarrow> filter (\<lambda>x. f x \<noteq> i) xs = xs"
  by (simp add: filter_id_conv)

lemma deleteClient_rejected:
  assumes "clientExists db i" and "clientReferenced db i"
  shows "deleteClient db i = Inl ForeignKeyViolation" and "delete_clients_route db i = (db, 500)"
  using assms by (simp_all add: deleteClient_def delete_clients_route_def deleteStatus_def)

lemma deleteArtist_rejected:
  assumes "artistExists db i" and "artistReferenced db i"
  shows "deleteArtist db i = Inl ForeignKeyViolation" and "delete_artists_route db i = (db, 500)"
  using assms by (simp_all add: deleteArtist_def delete_artists_route_def deleteStatus_def)

lemma deleteClient_keeps_references:
  assumes "referencesResolve db"
  shows "referencesResolve (fst (delete_clients_route db i))"
proof (cases "clientExists db i \<and> clientReferenced db i")
  case True
  with assms show ?thesis
    by (simp add: deleteClient_def delete_clients_route_def deleteStatus_def)
next
  case False
  let ?db' = "db\<lparr>clients := filter (\<lambda>c. c_id c \<noteq> i) (clients db)\<rparr>"
  from False have r: "fst (delete_clients_route db i) = ?db'"
    by (auto simp: deleteClient_def delete_clients_route_def deleteStatus_def)
  have keep: "clientExists ?db' k" if "clientExists db k" and "clientReferenced db k" for k
  proof -
    from that False have "k \<noteq> i" by auto
    with that(1) show ?thesis by (auto simp: clientExists_def)
  qed
  have "clientExists ?db' (ap_clientId a) \<and> artistExists ?db' (ap_artistId a)"
    if "a \<in> set (appointments db)" for a
  proof -
    from that assms have "clientExists db (ap_clientId a)" "artistExists db (ap_artistId a)"
      by (auto simp: referencesResolve_def)
    moreover from that have "clientReferenced db (ap_clientId a)"
      by (auto simp: clientReferenced_def)
    ultimately show ?thesis using keep by (simp add: artistExists_def)
  qed
  moreover have "saleReferencesOk ?db' s" if "s \<in> set (sales db)" for s
  proof -
    from that assms have ok: "saleReferencesOk db s"
      by (auto simp: referencesResolve_def)
    moreover from that have "clientReferenced db (s_clientId s)"
      by (auto simp: clientReferenced_def)
    ultimately have "clientExists ?db' (s_clientId s)"
      using keep by (simp add: saleReferencesOk_def)
    with ok show ?thesis
      by (auto simp: saleReferencesOk_def artistExists_def appointmentExists_def split: option.splits)
  qed
  ultimately show ?thesis
    unfolding r by (simp add: referencesResolve_def)
qed

lemma deleteArtist_keeps_references:
  assumes "referencesResolve db"
  shows "referencesResolve (fst (delete_artists_route db i))"
proof (cases "artistExists db i \<and> artistReferenced db i")
  case True
  with assms show ?thesis
    by (simp add: deleteArtist_def delete_artists_route_def deleteStatus_def)
next
  case False
  let ?db' = "db\<lparr>artists := filter (\<lambda>a. ar_id a \<noteq> i) (artists db)\<rparr>"
  from False have r: "fst (delete_artists_route db i) = ?db'"
    by (auto simp: deleteArtist_def delete_artists_route_def deleteStatus_def)
  have keep: "artistExists ?db' k" if "artistExists db k" and "artistReferenced db k" for k
  proof -
    from that False have "k \<noteq> i" by auto
    with that(1) show ?thesis by (auto simp: artistExists_def)
  qed
  have "clientExists ?db' (ap_clientId a) \<and> artistExists ?db' (ap_artistId a)"
    if "a \<in> set (appointments db)" for a
  proof -
    from that assms have "clientExists db (ap_clientId a)" "artistExists db (ap_artistId a)"
      by (auto simp: referencesResolve_def)
    moreover from that have "artistReferenced db (ap_artistId a)"
      by (auto simp: artistReferenced_def)
    ultimately show ?thesis using keep by (simp add: clientExists_def)
  qed
  moreover have "saleReferencesOk ?db' s" if "s \<in> set (sales db)" for s
  proof -
    from that assms have ok: "saleReferencesOk db s"
      by (auto simp: referencesResolve_def)
    moreover from that have "artistReferenced db (s_artistId s)"
      by (auto simp: artistReferenced_def)
    ultimately have "artistExists ?db' (s_artistId s)"
      using keep by (simp add: saleReferencesOk_def)
    with ok show ?thesis
      by (auto simp: saleReferencesOk_def clientExists_def appointmentExists_def split: option.splits)
  qed
  ultimately show ?thesis
    unfolding r by (simp add: referencesResolve_def)
qed

lemmas delete_defs =
  deleteClient_def deleteArtist_def deleteAppointment_def deleteInventoryItem_def deleteSale_def
  delete_clients_route_def delete_artists_route_def delete_appointments_route_def
  delete_inventory_route_def delete_sales_route_def deleteStatus_def
  clientExists_def artistExists_def appointmentExists_def inventoryItemExists_def saleExists_def
  clientReferenced_def artistReferenced_def appointmentReferenced_def

lemma delete_clients_absent: "\<not> clientExists db i \<Longrightarrow> delete_clients_route db i = (db, 204)"
  by (simp add: delete_clients_route_def deleteStatus_def deleteClient_def clientExists_def filter_absent)

lemma delete_artists_absent: "\<not> artistExists db i \<Longrightarrow> delete_artists_route db i = (db, 204)"
  by (simp add: delete_artists_route_def deleteStatus_def deleteArtist_def artistExists_def filter_absent)

lemma delete_appointments_absent:
  "\<not> appointmentExists db i \<Longrightarrow> delete_appointments_route db i = (db, 204)"
  by (simp add: delete_appointments_route_def deleteStatus_def deleteAppointment_def
      appointmentExists_def filter_absent)

lemma delete_inventory_absent:
  "\<not> inventoryItemExists db i \<Longrightarrow> delete_inventory_route db i = (db, 204)"
  by (simp add: delete_inventory_route_def deleteStatus_def deleteInventoryItem_def
      inventoryItemExists_def filter_absent)

lemma delete_sales_absent: "\<not> saleExists db i \<Longrightarrow> delete_sales_route db i = (db, 204)"
  by (simp add: delete_sales_route_def deleteStatus_def deleteSale_def saleExists_def filter_absent)

lemma delete_clients_gone:
  "snd (delete_clients_route db i) = 204 \<Longrightarrow> \<not> clientExists (fst (delete_clients_route db i)) i"
  by (auto simp: delete_clients_route_def deleteStatus_def deleteClient_def clientExists_def
      split: if_splits)

lemma delete_artists_gone:
  "snd (delete_artists_route db i) = 204 \<Longrightarrow> \<not> artistExists (fst (delete_artists_route db i)) i"
  by (auto simp: delete_artists_route_def deleteStatus_def deleteArtist_def artistExists_def
      split: if_splits)

lemma delete_appointments_gone:
  "snd (delete_appointments_route db i) = 204 \<Longrightarrow>
     \<not> appointmentExists (fst (delete_appointments_route db i)) i"
  by (auto simp: delete_appointments_route_def deleteStatus_def deleteAppointment_def
      appointmentExists_def split: if_splits)

lemma delete_inventory_gone:
  "\<not> inventoryItemExists (fst (delete_inventory_route db i)) i"
  by (simp add: delete_inventory_route_def deleteStatus_def deleteInventoryItem_def
      inventoryItemExists_def)

lemma delete_sales_gone: "\<not> saleExists (fst (delete_sales_route db i)) i"
  by (simp add: delete_sales_route_def deleteStatus_def deleteSale_def saleExists_def)

text \<open>
  Claim C9. Deleting a client or an artist that an appointment or a sale still
  references is rejected: the statement fails on the foreign key, the handler answers
  500 and the state is unchanged. Hence from a state in which every reference resolves,
  a delete of a client or an artist, whether it succeeds or fails, leaves a state in
  which every reference resolves.
\<close>

theorem referenced_delete_rejected:
  "(clientExists db i \<and> clientReferenced db i \<longrightarrow>
      deleteClient db i = Inl ForeignKeyViolation \<and> delete_clients_route db i = (db, 500))
   \<and> (artistExists db i \<and> artistReferenced db i \<longrightarrow>
      deleteArtist db i = Inl ForeignKeyViolation \<and> delete_artists_route db i = (db, 500))
   \<and> (referencesResolve db \<longrightarrow>
      referencesResolve (fst (delete_clients_route db i))
      \<and> referencesResolve (fst (delete_artists_route db i)))"
  using deleteClient_rejected[of db i] deleteArtist_rejected[of db i]
    deleteClient_keeps_references[of db i] deleteArtist_keeps_references[of db i]
  by blast

theorem referenced_delete_rejected_witness:
  "clientExists studio ''c1'' \<and> clientReferenced studio ''c1''
   \<and> delete_clients_route studio ''c1'' = (studio, 500)
   \<and> artistExists studio ''a1'' \<and> artistReferenced studio ''a1''
   \<and> delete_artists_route studio ''a1'' = (studio, 500)
   \<and> referencesResolve (studio\<lparr>clients := [ada, bea]\<rparr>)
   \<and> delete_clients_route (studio\<lparr>clients := [ada, bea]\<rparr>) ''c2'' = (studio, 204)
   \<and> referencesResolve studio"
proof -
  have c: "clientExists studio ''c1'' \<and> clientReferenced studio ''c1''"
    by (simp add: delete_defs studio_defs)
  have a: "artistExists studio ''a1'' \<and> artistReferenced studio ''a1''"
    by (simp add: delete_defs studio_defs)
  have r: "referencesResolve (studio\<lparr>clients := [ada, bea]\<rparr>)"
    by (simp add: referencesResolve_def saleReferencesOk_def delete_defs studio_defs bea_def)
  have d: "delete_clients_route (studio\<lparr>clients := [ada, bea]\<rparr>) ''c2'' = (studio, 204)"
    by (simp add: delete_defs studio_defs bea_def)
  from referenced_delete_rejected[of studio "''c1''"] c
  have w1: "delete_clients_route studio ''c1'' = (studio, 500)" by simp
  from referenced_delete_rejected[of studio "''a1''"] a
  have w2: "delete_artists_route studio ''a1'' = (studio, 500)" by simp
  from referenced_delete_rejected[of "studio\<lparr>clients := [ada, bea]\<rparr>" "''c2''"] r d
  have w3: "referencesResolve studio" by simp
  from c a r d w1 w2 w3 show ?thesis by simp
qed

text \<open>
  Claim C10. For clients, artists, appointments, inventory items and sales, deleting an
  id that no row has answers 204 and leaves the state as it was; and after a delete that
  answered 204, the same delete again answers 204 and changes nothing.
\<close>

theorem delete_missing_is_noop:
  "(\<not> clientExists db i \<longrightarrow> delete_clients_route db i = (db, 204))
   \<and> (\<not> artistExists db i \<longrightarrow> delete_artists_route db i = (db, 204))
   \<and> (\<not> appointmentExists db i \<longrightarrow> delete_appointments_route db i = (db, 204))
   \<and> (\<not> inventoryItemExists db i \<longrightarrow> delete_inventory_route db i = (db, 204))
   \<and> (\<not> saleExists db i \<longrightarrow> delete_sales_route db i = (db, 204))
   \<and> (snd (delete_clients_route db i) = 204 \<longrightarrow>
        delete_clients_route (fst (delete_clients_route db i)) i = (fst (delete_clients_route db i), 204))
   \<and> (snd (delete_artists_route db i) = 204 \<longrightarrow>
        delete_artists_route (fst (delete_artists_route db i)) i = (fst (delete_artists_route db i), 204))
   \<and> (snd (delete_appointments_route db i) = 204 \<longrightarrow>
        delete_appointments_route (fst (delete_appointments_route db i)) i =
          (fst (delete_appointments_route db i), 204))
   \<and> (snd (delete_inventory_route db i) = 204 \<longrightarrow>
        delete_inventory_route (fst (delete_inventory_route db i)) i =
          (fst (delete_inventory_route db i), 204))
   \<and> (snd (delete_sales_route db i) = 204 \<longrightarrow>
        delete_sales_route (fst (delete_sales_route db i)) i = (fst (delete_sales_route db i), 204))"
proof (intro conjI impI)
  show "delete_clients_route db i = (db, 204)" if "\<not> clientExists db i"
    using that by (rule delete_clients_absent)
  show "delete_artists_route db i = (db, 204)" if "\<not> artistExists db i"
    using that by (rule delete_artists_absent)
  show "delete_appointments_route db i = (db, 204)" if "\<not> appointmentExists db i"
    using that by (rule delete_appointments_absent)
  show "delete_inventory_route db i = (db, 204)" if "\<not> inventoryItemExists db i"
    using that by (rule delete_inventory_absent)
  show "delete_sales_route db i = (db, 204)" if "\<not> saleExists db i"
    using that by (rule delete_sales_absent)
  show "delete_clients_route (fst (delete_clients_route db i)) i = (fst (delete_clients_route db i), 204)"
    if "snd (delete_clients_route db i) = 204"
    by (rule delete_clients_absent) (rule delete_clients_gone[OF that])
  show "delete_artists_route (fst (delete_artists_route db i)) i = (fst (delete_artists_route db i), 204)"
    if "snd (delete_artists_route db i) = 204"
    by (rule delete_artists_absent) (rule delete_artists_gone[OF that])
  show "delete_appointments_route (fst (delete_appointments_route db i)) i =
      (fst (delete_appointments_route db i), 204)"
    if "snd (delete_appointments_route db i) = 204"
    by (rule delete_appointments_absent) (rule delete_appointments_gone[OF that])
  show "delete_inventory_route (fst (delete_inventory_route db i)) i =
      (fst (delete_inventory_route db i), 204)"
    by (rule delete_inventory_absent) (rule delete_inventory_gone)
  show "delete_sales_route (fst (delete_sales_route db i)) i = (fst (delete_sales_route db i), 204)"
    by (rule delete_sales_absent) (rule delete_sales_gone)
qed

theorem delete_missing_is_noop_witness:
  "\<not> clientExists studio ''zz'' \<and> delete_clients_route studio ''zz'' = (studio, 204)
   \<and> \<not> artistExists studio ''zz'' \<and> delete_artists_route studio ''zz'' = (studio, 204)
   \<and> \<not> appointmentExists studio ''zz'' \<and> delete_appointments_route studio ''zz'' = (studio, 204)
   \<and> \<not> inventoryItemExists studio ''zz'' \<and> delete_inventory_route studio ''zz'' = (studio, 204)
   \<and> \<not> saleExists studio ''zz'' \<and> delete_sales_route studio ''zz'' = (studio, 204)
   \<and> delete_inventory_route (studio\<lparr>inventory := shelf\<rparr>) ''i1'' =
       (studio\<lparr>inventory := [stockItem ''i2'' ''needles'' 0 5, stockItem ''i3'' ''gloves'' 9 5]\<rparr>, 204)
   \<and> delete_inventory_route
         (studio\<lparr>inventory := [stockItem ''i2'' ''needles'' 0 5, stockItem ''i3'' ''gloves'' 9 5]\<rparr>) ''i1'' =
       (studio\<lparr>inventory := [stockItem ''i2'' ''needles'' 0 5, stockItem ''i3'' ''gloves'' 9 5]\<rparr>, 204)"
proof -
  let ?rest = "studio\<lparr>inventory := [stockItem ''i2'' ''needles'' 0 5, stockItem ''i3'' ''gloves'' 9 5]\<rparr>"
  have n: "\<not> clientExists studio ''zz''" "\<not> artistExists studio ''zz''"
    "\<not> appointmentExists studio ''zz''" "\<not> inventoryItemExists studio ''zz''"
    "\<not> saleExists studio ''zz''"
    by (simp_all add: delete_defs studio_defs)
  have d: "delete_inventory_route (studio\<lparr>inventory := shelf\<rparr>) ''i1'' = (?rest, 204)"
    by (simp add: delete_defs shelf_def stockItem_def)
  from delete_missing_is_noop[of studio "''zz''"] n
  have w1: "delete_clients_route studio ''zz'' = (studio, 204)"
    "delete_artists_route studio ''zz'' = (studio, 204)"
    "delete_appointments_route studio ''zz'' = (studio, 204)"
    "delete_inventory_route studio ''zz'' = (studio, 204)"
    "delete_sales_route studio ''zz'' = (studio, 204)"
    by simp_all
  from delete_missing_is_noop[of "studio\<lparr>inventory := shelf\<rparr>" "''i1''"] d
  have w2: "delete_inventory_route ?rest ''i1'' = (?rest, 204)"
    by simp
  from n d w1 w2 show ?thesis by simp
qed

end
